theory Spec2Isabelle
  imports Main
begin

section \<open>Data model\<close>

text \<open>
  The alert delivery and reminder engine of the alerting platform:
  \<^verbatim>\<open>AlertStateManager.ts\<close> (the state engine), \<^verbatim>\<open>NotificationChannelFactory.ts\<close> (the channel
  registry \<^verbatim>\<open>NotificationService.ts\<close> imports) and \<^verbatim>\<open>NotificationService.ts\<close> (the delivery
  orchestrator), over the tables of the SQL schema.

  Conventions of the embedding.
  \<^item> A \<^verbatim>\<open>Date\<close> is its \<^verbatim>\<open>getTime()\<close> value, an integer number of milliseconds; the
    comparison of two dates is the comparison of these integers. An optional field
    (\<^verbatim>\<open>startTime?: Date\<close>) is an \<open>option\<close>; a \<^verbatim>\<open>Date\<close> object is always truthy, so the
    test \<^verbatim>\<open>alert.expiryTime && ...\<close> is a test for \<open>Some\<close>.
  \<^item> Every function that reads the clock (\<^verbatim>\<open>new Date()\<close>, \<^verbatim>\<open>Date.now()\<close>,
    \<^verbatim>\<open>datetime('now')\<close>) takes the instant as the parameter \<open>now\<close>; one call of an
    operation of the service is evaluated at one instant.
  \<^item> A row of a table is held in the record of its interface, each column under the
    name of the field it is stored for (\<^verbatim>\<open>is_read\<close> under \<open>isRead\<close>, \<^verbatim>\<open>expiry_time\<close> under
    \<open>expiryTime\<close>). The SQL of the service reads the columns. Its TypeScript reads the
    object \<^verbatim>\<open>db.get<T>\<close> returns, which is the row itself under the column names:
    \<open>uncastAlert\<close> and \<open>uncastPreference\<close> below give what the fields of the interface then
    hold.
  \<^item> The \<^verbatim>\<open>INSERT\<close> into \<^verbatim>\<open>notification_deliveries\<close> is checked against the schema (the
    \<^verbatim>\<open>CHECK\<close> on \<^verbatim>\<open>channel\<close>, the two foreign keys), since its failure ends
    \<^verbatim>\<open>deliverToUser\<close> early. The commands on \<^verbatim>\<open>user_alert_preferences\<close> are modelled where
    they complete; one the schema rejects throws and writes nothing.
  \<^item> Identifiers produced by \<^verbatim>\<open>uuidv4()\<close> and the opaque channel metadata are left out
    of the rows: no decision of the engine reads them.
\<close>

type_synonym timestamp = int

datatype UserRole = ADMIN | USER

datatype AlertSeverity = INFO | WARNING | CRITICAL

datatype DeliveryStatus = PENDING | DELIVERED | FAILED | READ

datatype AlertState = ACTIVE | SNOOZED | EXPIRED

record User =
  u_id :: string
  u_name :: string
  u_email :: string
  teamId :: "string option"
  role :: UserRole

text \<open>
  \<open>visibilityType\<close> is kept as the string the \<^verbatim>\<open>switch\<close> of \<^verbatim>\<open>getEligibleUsers\<close> compares
  with its three literals, so that the \<^verbatim>\<open>default\<close> branch has inputs. \<open>archivedAt\<close> is the
  column \<^verbatim>\<open>archived_at\<close> of the table, which the queries of the service read.
\<close>

record Alert =
  a_id :: string
  title :: string
  message :: string
  severity :: AlertSeverity
  visibilityType :: string
  visibilityTarget :: "string option"
  startTime :: "timestamp option"
  expiryTime :: "timestamp option"
  reminderEnabled :: bool
  archivedAt :: "timestamp option"

text \<open>
  A row of \<^verbatim>\<open>user_alert_preferences\<close>. The table has \<^verbatim>\<open>UNIQUE(user_id, alert_id)\<close>; the
  pair is the key under which the store holds the row.
\<close>

record UserAlertPreference =
  isRead :: bool
  snoozedUntil :: "timestamp option"
  updatedAt :: timestamp

record Notification =
  n_alertId :: string
  n_title :: string
  n_message :: string
  n_severity :: AlertSeverity
  createdAt :: timestamp

record NotificationDelivery =
  d_alertId :: string
  d_userId :: string
  channel :: string
  deliveredAt :: timestamp
  status :: DeliveryStatus

record DeliveryResult =
  success :: bool

text \<open>A channel as the service uses it: \<^verbatim>\<open>getName()\<close> and \<^verbatim>\<open>deliver(notification, user)\<close>.\<close>

record NotificationChannelStrategy =
  getName :: string
  deliver :: "Notification \<Rightarrow> User \<Rightarrow> DeliveryResult"

section \<open>Alert state engine (AlertStateManager.ts)\<close>

definition ActiveAlertState_canDeliver :: "timestamp \<Rightarrow> Alert \<Rightarrow> bool" where
  "ActiveAlertState_canDeliver now alert =
     (if (case startTime alert of None \<Rightarrow> False | Some st \<Rightarrow> now < st) then False
      else if (case expiryTime alert of None \<Rightarrow> False | Some e \<Rightarrow> now > e) then False
      else True)"

text \<open>
  \<open>reminderInterval\<close> is \<^verbatim>\<open>parseInt(process.env.REMINDER_INTERVAL_MINUTES || '120')\<close>, a
  number of minutes read from the configuration at each call.
\<close>

definition ActiveAlertState_getNextReminderTime ::
  "int \<Rightarrow> timestamp \<Rightarrow> Alert \<Rightarrow> timestamp option \<Rightarrow> timestamp option" where
  "ActiveAlertState_getNextReminderTime reminderInterval now alert lastDelivery =
     (if \<not> reminderEnabled alert then None
      else
        let nextReminder =
              (case lastDelivery of Some l \<Rightarrow> l | None \<Rightarrow> now) + reminderInterval * 60 * 1000
        in if (case expiryTime alert of None \<Rightarrow> False | Some e \<Rightarrow> nextReminder > e) then None
           else Some nextReminder)"

definition ActiveAlertState_shouldCreateReminder ::
  "timestamp \<Rightarrow> Alert \<Rightarrow> UserAlertPreference \<Rightarrow> bool" where
  "ActiveAlertState_shouldCreateReminder now alert preference =
     (reminderEnabled alert \<and> \<not> isRead preference \<and>
      (case snoozedUntil preference of None \<Rightarrow> True | Some su \<Rightarrow> su < now))"

definition getState :: "timestamp \<Rightarrow> Alert \<Rightarrow> UserAlertPreference option \<Rightarrow> AlertState" where
  "getState now alert preference =
     (if (case expiryTime alert of None \<Rightarrow> False | Some e \<Rightarrow> now > e) then EXPIRED
      else if (case preference of None \<Rightarrow> False
               | Some p \<Rightarrow> (case snoozedUntil p of None \<Rightarrow> False | Some su \<Rightarrow> su > now))
      then SNOOZED
      else if (case startTime alert of None \<Rightarrow> False | Some st \<Rightarrow> now < st) then ACTIVE
      else ACTIVE)"

text \<open>
  \<^verbatim>\<open>getStateHandler\<close> followed by the call of the handler's method: the handlers of
  \<^verbatim>\<open>SnoozedAlertState\<close> and \<^verbatim>\<open>ExpiredAlertState\<close> return \<^verbatim>\<open>false\<close> and \<^verbatim>\<open>null\<close>. All three
  states are registered, so the lookup never throws.
\<close>

definition handler_canDeliver :: "AlertState \<Rightarrow> timestamp \<Rightarrow> Alert \<Rightarrow> bool" where
  "handler_canDeliver st now alert =
     (case st of ACTIVE \<Rightarrow> ActiveAlertState_canDeliver now alert
      | SNOOZED \<Rightarrow> False
      | EXPIRED \<Rightarrow> False)"

definition handler_getNextReminderTime ::
  "AlertState \<Rightarrow> int \<Rightarrow> timestamp \<Rightarrow> Alert \<Rightarrow> timestamp option \<Rightarrow> timestamp option" where
  "handler_getNextReminderTime st reminderInterval now alert lastDelivery =
     (case st of
        ACTIVE \<Rightarrow> ActiveAlertState_getNextReminderTime reminderInterval now alert lastDelivery
      | SNOOZED \<Rightarrow> None
      | EXPIRED \<Rightarrow> None)"

definition handler_shouldCreateReminder ::
  "AlertState \<Rightarrow> timestamp \<Rightarrow> Alert \<Rightarrow> UserAlertPreference \<Rightarrow> bool" where
  "handler_shouldCreateReminder st now alert preference =
     (case st of ACTIVE \<Rightarrow> ActiveAlertState_shouldCreateReminder now alert preference
      | SNOOZED \<Rightarrow> False
      | EXPIRED \<Rightarrow> False)"

definition AlertStateManager_canDeliver ::
  "timestamp \<Rightarrow> Alert \<Rightarrow> UserAlertPreference option \<Rightarrow> bool" where
  "AlertStateManager_canDeliver now alert preference =
     handler_canDeliver (getState now alert preference) now alert"

definition AlertStateManager_getNextReminderTime ::
  "int \<Rightarrow> timestamp \<Rightarrow> Alert \<Rightarrow> UserAlertPreference option \<Rightarrow> timestamp option
     \<Rightarrow> timestamp option" where
  "AlertStateManager_getNextReminderTime reminderInterval now alert preference lastDelivery =
     handler_getNextReminderTime (getState now alert preference) reminderInterval now alert
       lastDelivery"

definition AlertStateManager_shouldCreateReminder ::
  "timestamp \<Rightarrow> Alert \<Rightarrow> UserAlertPreference \<Rightarrow> bool" where
  "AlertStateManager_shouldCreateReminder now alert preference =
     handler_shouldCreateReminder (getState now alert (Some preference)) now alert preference"

section \<open>Channel registry (NotificationChannelFactory.ts)\<close>

text \<open>
  The three channel classes of the factory. Each \<^verbatim>\<open>deliver\<close> logs and returns
  \<^verbatim>\<open>{ success: true, ... }\<close>. The name of the first one is \<^verbatim>\<open>'in-app'\<close>, with a hyphen.
\<close>

definition InAppChannel :: NotificationChannelStrategy where
  "InAppChannel =
     \<lparr>getName = ''in-app'', deliver = (\<lambda>notification user. \<lparr>success = True\<rparr>)\<rparr>"

definition EmailChannel :: NotificationChannelStrategy where
  "EmailChannel =
     \<lparr>getName = ''email'', deliver = (\<lambda>notification user. \<lparr>success = True\<rparr>)\<rparr>"

definition SmsChannel :: NotificationChannelStrategy where
  "SmsChannel =
     \<lparr>getName = ''sms'', deliver = (\<lambda>notification user. \<lparr>success = True\<rparr>)\<rparr>"

text \<open>
  \<^verbatim>\<open>initializeChannels\<close> pushes the three channels in this order, and
  \<^verbatim>\<open>getEnabledChannels\<close> returns them all. The constructor of \<^verbatim>\<open>NotificationService\<close> stores
  this list in its field \<^verbatim>\<open>enabledChannels\<close>, the parameter \<open>enabledChannels\<close> of the
  operations below.
\<close>

definition getEnabledChannels :: "NotificationChannelStrategy list" where
  "getEnabledChannels = [InAppChannel, EmailChannel, SmsChannel]"

section \<open>The store\<close>

text \<open>
  The four tables the service reads and writes. \<open>users\<close> and \<open>alerts\<close> are lists of rows (the
  order in which a query returns them); \<open>preferences\<close> maps the unique key
  \<open>(user_id, alert_id)\<close> to its row; \<open>deliveries\<close> is the append-only table of delivery
  attempts, oldest first.
\<close>

record Store =
  users :: "User list"
  alerts :: "Alert list"
  preferences :: "string \<times> string \<Rightarrow> UserAlertPreference option"
  deliveries :: "NotificationDelivery list"

text \<open>
  The comparison \<^verbatim>\<open>column = ?\<close> of SQL: it holds only between two values that are both
  present and equal; a \<^verbatim>\<open>NULL\<close> on either side (an absent \<^verbatim>\<open>team_id\<close>, an \<^verbatim>\<open>undefined\<close>
  \<^verbatim>\<open>visibilityTarget\<close>) never matches.
\<close>

definition sql_eq :: "string option \<Rightarrow> string option \<Rightarrow> bool" where
  "sql_eq x y = (case x of None \<Rightarrow> False | Some a \<Rightarrow> (case y of None \<Rightarrow> False | Some b \<Rightarrow> a = b))"

text \<open>
  What the TypeScript of the service reads from a row. \<^verbatim>\<open>db.get<T>\<close> and \<^verbatim>\<open>db.query<T>\<close>
  resolve with the rows of SQLite as they are (\<^verbatim>\<open>resolve(row as T)\<close>), and
  \<^verbatim>\<open>NotificationService\<close> passes them on unmapped (\<^verbatim>\<open>AlertService\<close> maps its rows, in
  \<^verbatim>\<open>mapDatabaseRowToAlert\<close>). A field of the interface whose column has the same name
  (\<^verbatim>\<open>id\<close>, \<^verbatim>\<open>title\<close>, \<^verbatim>\<open>message\<close>, \<^verbatim>\<open>severity\<close>) holds the column; a field whose column is
  named otherwise (\<^verbatim>\<open>visibility_type\<close>, \<^verbatim>\<open>visibility_target\<close>, \<^verbatim>\<open>start_time\<close>,
  \<^verbatim>\<open>expiry_time\<close>, \<^verbatim>\<open>reminder_enabled\<close>; \<^verbatim>\<open>is_read\<close>, \<^verbatim>\<open>snoozed_until\<close>) is \<^verbatim>\<open>undefined\<close>.
  Every use of these fields by the service and the state engine is a truthiness test
  or the \<^verbatim>\<open>switch\<close> over \<^verbatim>\<open>visibilityType\<close>: an undefined date is \<open>None\<close>, an undefined
  boolean is \<open>False\<close>, and the undefined \<^verbatim>\<open>visibilityType\<close>, which is none of the three
  literals of the \<^verbatim>\<open>switch\<close>, is the string \<open>''undefined''\<close>. \<open>archivedAt\<close> and \<open>updatedAt\<close>
  are never read from an object and stay as they are. Of a user row the TypeScript
  reads \<^verbatim>\<open>id\<close> and \<^verbatim>\<open>email\<close> only, both columns of that name.
\<close>

definition uncastAlert :: "Alert \<Rightarrow> Alert" where
  "uncastAlert row =
     row\<lparr>visibilityType := ''undefined'', visibilityTarget := None, startTime := None,
         expiryTime := None, reminderEnabled := False\<rparr>"

definition uncastPreference :: "UserAlertPreference \<Rightarrow> UserAlertPreference" where
  "uncastPreference row = row\<lparr>isRead := False, snoozedUntil := None\<rparr>"

text \<open>
  The comparison \<^verbatim>\<open>p.snoozed_until < datetime('now')\<close>. SQLite compares the two texts
  byte by byte: \<^verbatim>\<open>snoozed_until\<close> as \<^verbatim>\<open>snoozeAlert\<close> stored it (\<^verbatim>\<open>toISOString()\<close>,
  \<^verbatim>\<open>YYYY-MM-DDTHH:MM:SS.sssZ\<close>) and \<^verbatim>\<open>datetime('now')\<close> (\<^verbatim>\<open>YYYY-MM-DD HH:MM:SS\<close>). Both begin
  with the UTC date; where the dates are equal, the eleventh byte decides, and \<^verbatim>\<open>T\<close> is
  greater than the space. So the comparison holds exactly when the UTC day of
  \<^verbatim>\<open>snoozed_until\<close> is before the UTC day of \<open>now\<close> (for years of four digits). A day is
  \<open>86400000\<close> milliseconds.
\<close>

definition isoTextBeforeDatetime :: "timestamp \<Rightarrow> timestamp \<Rightarrow> bool" where
  "isoTextBeforeDatetime t now = (t div 86400000 < now div 86400000)"

section \<open>Delivery orchestrator (NotificationService.ts)\<close>

datatype error = AlertNotFound string

text \<open>
  The queries on \<^verbatim>\<open>alerts\<close> and \<^verbatim>\<open>user_alert_preferences\<close> select with the columns and
  return the rows uncast.
\<close>

definition getAlert :: "Store \<Rightarrow> string \<Rightarrow> Alert option" where
  "getAlert s alertId =
     map_option uncastAlert (find (\<lambda>a. a_id a = alertId \<and> archivedAt a = None) (alerts s))"

definition getEligibleUsers :: "Store \<Rightarrow> Alert \<Rightarrow> User list" where
  "getEligibleUsers s alert =
     (if visibilityType alert = ''organization''
        then filter (\<lambda>u. role u = ADMIN \<or> role u = USER) (users s)
      else if visibilityType alert = ''team''
        then filter (\<lambda>u. sql_eq (teamId u) (visibilityTarget alert)) (users s)
      else if visibilityType alert = ''user''
        then filter (\<lambda>u. sql_eq (Some (u_id u)) (visibilityTarget alert)) (users s)
      else [])"

text \<open>
  \<^verbatim>\<open>start_time <= ?\<close> and \<^verbatim>\<open>expiry_time > ?\<close> compare two texts of the same format
  (\<^verbatim>\<open>toISOString()\<close> on both sides), that is, the instants.
\<close>

definition getActiveAlertsWithReminders :: "timestamp \<Rightarrow> Store \<Rightarrow> Alert list" where
  "getActiveAlertsWithReminders now s =
     map uncastAlert
       (filter (\<lambda>a. reminderEnabled a \<and> archivedAt a = None \<and>
                    (case startTime a of None \<Rightarrow> True | Some st \<Rightarrow> st \<le> now) \<and>
                    (case expiryTime a of None \<Rightarrow> True | Some e \<Rightarrow> e > now))
               (alerts s))"

text \<open>
  The \<^verbatim>\<open>WHERE\<close> clause of \<^verbatim>\<open>getUsersNeedingReminders\<close> on one row of the join of a user, an
  alert and the user's preference for it (\<open>None\<close> where the \<^verbatim>\<open>LEFT JOIN\<close> finds no row).
\<close>

definition needsReminderRow ::
  "timestamp \<Rightarrow> string \<Rightarrow> User \<Rightarrow> Alert \<Rightarrow> UserAlertPreference option \<Rightarrow> bool" where
  "needsReminderRow now alertId u a p =
     (a_id a = alertId \<and>
      (visibilityType a = ''organization'' \<or>
       (visibilityType a = ''team'' \<and> sql_eq (teamId u) (visibilityTarget a)) \<or>
       (visibilityType a = ''user'' \<and> sql_eq (Some (u_id u)) (visibilityTarget a))) \<and>
      (case p of None \<Rightarrow> True | Some pr \<Rightarrow> isRead pr = False) \<and>
      (case p of None \<Rightarrow> True
       | Some pr \<Rightarrow> (case snoozedUntil pr of None \<Rightarrow> True
                    | Some su \<Rightarrow> isoTextBeforeDatetime su now)))"

text \<open>\<^verbatim>\<open>SELECT DISTINCT u.*\<close>: a user is returned once, when some row of the join passes.\<close>

definition getUsersNeedingReminders :: "timestamp \<Rightarrow> Store \<Rightarrow> string \<Rightarrow> User list" where
  "getUsersNeedingReminders now s alertId =
     remdups (filter (\<lambda>u. list_ex (\<lambda>a. needsReminderRow now alertId u a
                                          (preferences s (u_id u, a_id a))) (alerts s))
                     (users s))"

definition getUserAlertPreference :: "Store \<Rightarrow> string \<Rightarrow> string \<Rightarrow> UserAlertPreference option" where
  "getUserAlertPreference s userId alertId =
     map_option uncastPreference (preferences s (userId, alertId))"

text \<open>
  \<^verbatim>\<open>INSERT OR IGNORE ... VALUES (?, ?, ?, 0)\<close>: a row with \<^verbatim>\<open>is_read = 0\<close> and no snooze is
  inserted when the key has none; an existing row is left as it is.
\<close>

definition ensureUserAlertPreference :: "timestamp \<Rightarrow> Store \<Rightarrow> string \<Rightarrow> string \<Rightarrow> Store" where
  "ensureUserAlertPreference now s userId alertId =
     (case preferences s (userId, alertId) of
        Some p \<Rightarrow> s
      | None \<Rightarrow> s\<lparr>preferences := (preferences s)((userId, alertId) \<mapsto>
                     \<lparr>isRead = False, snoozedUntil = None, updatedAt = now\<rparr>)\<rparr>)"

text \<open>
  The constraints of \<^verbatim>\<open>notification_deliveries\<close> on a new row:
  \<^verbatim>\<open>CHECK (channel IN ('in_app', 'email', 'sms'))\<close> and the foreign keys on \<^verbatim>\<open>alert_id\<close> and
  \<^verbatim>\<open>user_id\<close> (\<^verbatim>\<open>PRAGMA foreign_keys = ON\<close>). Every \<open>DeliveryStatus\<close> passes the \<^verbatim>\<open>CHECK\<close> on
  \<^verbatim>\<open>status\<close>.
\<close>

definition schemaAccepts :: "Store \<Rightarrow> NotificationDelivery \<Rightarrow> bool" where
  "schemaAccepts s delivery =
     ((channel delivery = ''in_app'' \<or> channel delivery = ''email'' \<or> channel delivery = ''sms'')
      \<and> list_ex (\<lambda>a. a_id a = d_alertId delivery) (alerts s)
      \<and> list_ex (\<lambda>u. u_id u = d_userId delivery) (users s))"

text \<open>\<open>None\<close>: the \<^verbatim>\<open>INSERT\<close> is rejected and \<^verbatim>\<open>recordDelivery\<close> throws.\<close>

definition recordDelivery :: "Store \<Rightarrow> NotificationDelivery \<Rightarrow> Store option" where
  "recordDelivery s delivery =
     (if schemaAccepts s delivery then Some (s\<lparr>deliveries := deliveries s @ [delivery]\<rparr>)
      else None)"

text \<open>
  \<^verbatim>\<open>ORDER BY delivered_at DESC LIMIT 1\<close> over the deliveries of the pair: the greatest
  \<^verbatim>\<open>delivered_at\<close>, or \<^verbatim>\<open>null\<close> when the pair has no delivery.
\<close>

fun latest :: "timestamp list \<Rightarrow> timestamp option" where
  "latest [] = None"
| "latest (t # ts) = (case latest ts of None \<Rightarrow> Some t | Some m \<Rightarrow> Some (max t m))"

definition getLastDeliveryTime :: "Store \<Rightarrow> string \<Rightarrow> string \<Rightarrow> timestamp option" where
  "getLastDeliveryTime s alertId userId =
     latest (map deliveredAt
               (filter (\<lambda>d. d_alertId d = alertId \<and> d_userId d = userId) (deliveries s)))"

text \<open>The notification object \<^verbatim>\<open>deliverToUser\<close> builds from the alert.\<close>

definition notificationOf :: "timestamp \<Rightarrow> Alert \<Rightarrow> Notification" where
  "notificationOf now alert =
     \<lparr>n_alertId = a_id alert, n_title = title alert, n_message = message alert,
      n_severity = severity alert, createdAt = now\<rparr>"

text \<open>
  The body of the loop over the enabled channels in \<^verbatim>\<open>deliverToUser\<close>: the channel
  delivers, and this record of the attempt goes to \<^verbatim>\<open>recordDelivery\<close>.
\<close>

definition deliveryRecord ::
  "timestamp \<Rightarrow> Alert \<Rightarrow> User \<Rightarrow> NotificationChannelStrategy \<Rightarrow> NotificationDelivery" where
  "deliveryRecord now alert user ch =
     (let result = deliver ch (notificationOf now alert) user
      in \<lparr>d_alertId = a_id alert, d_userId = u_id user, channel = getName ch,
          deliveredAt = now,
          status = (if success result then DELIVERED else FAILED)\<rparr>)"

text \<open>
  The loop over the enabled channels. The result is the store the loop leaves and
  whether it ran to its end: a throwing \<^verbatim>\<open>recordDelivery\<close> leaves the loop for the
  \<^verbatim>\<open>catch\<close> of \<^verbatim>\<open>deliverToUser\<close>, with the records of the earlier channels written.
\<close>

fun deliverThroughChannels ::
  "timestamp \<Rightarrow> Alert \<Rightarrow> User \<Rightarrow> NotificationChannelStrategy list \<Rightarrow> Store \<Rightarrow> bool \<times> Store" where
  "deliverThroughChannels now alert user [] s = (True, s)"
| "deliverThroughChannels now alert user (ch # chs) s =
     (case recordDelivery s (deliveryRecord now alert user ch) of
        None \<Rightarrow> (False, s)
      | Some s' \<Rightarrow> deliverThroughChannels now alert user chs s')"

text \<open>
  \<^verbatim>\<open>deliverToUser\<close>: the \<^verbatim>\<open>catch\<close> logs and returns, so after a throw
  \<^verbatim>\<open>ensureUserAlertPreference\<close> is not reached.
\<close>

definition deliverToUser ::
  "NotificationChannelStrategy list \<Rightarrow> timestamp \<Rightarrow> Store \<Rightarrow> Alert \<Rightarrow> User \<Rightarrow> Store" where
  "deliverToUser enabledChannels now s alert user =
     (let preference = getUserAlertPreference s (u_id user) (a_id alert)
      in if \<not> AlertStateManager_canDeliver now alert preference then s
         else
           (case deliverThroughChannels now alert user enabledChannels s of
              (completed, s1) \<Rightarrow>
                if completed then ensureUserAlertPreference now s1 (u_id user) (a_id alert)
                else s1))"

definition deliverAlert ::
  "NotificationChannelStrategy list \<Rightarrow> timestamp \<Rightarrow> Store \<Rightarrow> string \<Rightarrow> error + Store" where
  "deliverAlert enabledChannels now s alertId =
     (case getAlert s alertId of
        None \<Rightarrow> Inl (AlertNotFound alertId)
      | Some alert \<Rightarrow>
          Inr (fold (\<lambda>user s'. deliverToUser enabledChannels now s' alert user)
                    (getEligibleUsers s alert) s))"

text \<open>The body of the loop over the candidates in \<^verbatim>\<open>processAlertReminders\<close>.\<close>

definition remindUser ::
  "int \<Rightarrow> NotificationChannelStrategy list \<Rightarrow> timestamp \<Rightarrow> Alert \<Rightarrow> User \<Rightarrow> Store \<Rightarrow> Store" where
  "remindUser reminderInterval enabledChannels now alert user s =
     (case getUserAlertPreference s (u_id user) (a_id alert) of
        None \<Rightarrow> s
      | Some preference \<Rightarrow>
          if AlertStateManager_shouldCreateReminder now alert preference then
            (let lastDelivery = getLastDeliveryTime s (a_id alert) (u_id user);
                 nextReminderTime =
                   AlertStateManager_getNextReminderTime reminderInterval now alert
                     (Some preference) lastDelivery
             in case nextReminderTime of
                  None \<Rightarrow> s
                | Some t \<Rightarrow> if t \<le> now then deliverToUser enabledChannels now s alert user else s)
          else s)"

definition processAlertReminders ::
  "int \<Rightarrow> NotificationChannelStrategy list \<Rightarrow> timestamp \<Rightarrow> Alert \<Rightarrow> Store \<Rightarrow> Store" where
  "processAlertReminders reminderInterval enabledChannels now alert s =
     fold (remindUser reminderInterval enabledChannels now alert)
          (getUsersNeedingReminders now s (a_id alert)) s"

definition processReminders ::
  "int \<Rightarrow> NotificationChannelStrategy list \<Rightarrow> timestamp \<Rightarrow> Store \<Rightarrow> Store" where
  "processReminders reminderInterval enabledChannels now s =
     fold (processAlertReminders reminderInterval enabledChannels now)
          (getActiveAlertsWithReminders now s) s"

text \<open>
  \<^verbatim>\<open>INSERT OR REPLACE\<close> with the columns \<^verbatim>\<open>(id, user_id, alert_id, is_read, updated_at)\<close>: the
  row of the key is replaced by one with \<^verbatim>\<open>is_read = 1\<close>; \<^verbatim>\<open>snoozed_until\<close> is not among
  the columns and takes its default, \<^verbatim>\<open>NULL\<close>.
\<close>

definition markAlertAsRead :: "timestamp \<Rightarrow> Store \<Rightarrow> string \<Rightarrow> string \<Rightarrow> Store" where
  "markAlertAsRead now s userId alertId =
     s\<lparr>preferences := (preferences s)((userId, alertId) \<mapsto>
          \<lparr>isRead = True, snoozedUntil = None, updatedAt = now\<rparr>)\<rparr>"

text \<open>
  \<^verbatim>\<open>INSERT OR REPLACE\<close> with \<^verbatim>\<open>is_read = COALESCE((SELECT is_read ...), 0)\<close> and
  \<^verbatim>\<open>snoozed_until = Date.now() + hoursToSnooze * 60 * 60 * 1000\<close>.
\<close>

definition snoozeAlert :: "timestamp \<Rightarrow> Store \<Rightarrow> string \<Rightarrow> string \<Rightarrow> int \<Rightarrow> Store" where
  "snoozeAlert now s userId alertId hoursToSnooze =
     (let snoozedUntilNew = now + hoursToSnooze * 60 * 60 * 1000
      in s\<lparr>preferences := (preferences s)((userId, alertId) \<mapsto>
             \<lparr>isRead = (case preferences s (userId, alertId) of None \<Rightarrow> False
                        | Some p \<Rightarrow> isRead p),
              snoozedUntil = Some snoozedUntilNew, updatedAt = now\<rparr>)\<rparr>)"

text \<open>
  The public operations of \<^verbatim>\<open>NotificationService\<close>, each with the instant at which it runs.
  \<^verbatim>\<open>deliverAlert\<close> rethrows \<^verbatim>\<open>Alert not found\<close> before any write: the store is then as it
  was.
\<close>

datatype operation =
    DeliverAlert string
  | ProcessReminders
  | MarkAlertAsRead string string
  | SnoozeAlert string string int

definition perform ::
  "int \<Rightarrow> NotificationChannelStrategy list \<Rightarrow> timestamp \<times> operation \<Rightarrow> Store \<Rightarrow> Store" where
  "perform reminderInterval enabledChannels e s =
     (case snd e of
        DeliverAlert alertId \<Rightarrow>
          (case deliverAlert enabledChannels (fst e) s alertId of Inl err \<Rightarrow> s | Inr s' \<Rightarrow> s')
      | ProcessReminders \<Rightarrow> processReminders reminderInterval enabledChannels (fst e) s
      | MarkAlertAsRead userId alertId \<Rightarrow> markAlertAsRead (fst e) s userId alertId
      | SnoozeAlert userId alertId hoursToSnooze \<Rightarrow>
          snoozeAlert (fst e) s userId alertId hoursToSnooze)"

text \<open>
  The user has read the alert: the table has a preference row of the pair with
  \<^verbatim>\<open>is_read = 1\<close>.
\<close>

definition hasRead :: "Store \<Rightarrow> string \<Rightarrow> string \<Rightarrow> bool" where
  "hasRead s userId alertId =
     (case preferences s (userId, alertId) of None \<Rightarrow> False | Some p \<Rightarrow> isRead p)"

text \<open>The delivery records of one (alert, user) pair, oldest first.\<close>

definition deliveriesFor :: "Store \<Rightarrow> string \<Rightarrow> string \<Rightarrow> NotificationDelivery list" where
  "deliveriesFor s alertId userId =
     filter (\<lambda>d. d_alertId d = alertId \<and> d_userId d = userId) (deliveries s)"

section \<open>Example data\<close>

text \<open>
  A small organisation used to evaluate the operations: three users, five alerts. Times
  are milliseconds; \<open>7200000\<close> is 120 minutes.
\<close>

definition ex_alice :: User where
  "ex_alice = \<lparr>u_id = ''u1'', u_name = ''Alice'', u_email = ''alice@company.com'',
               teamId = Some ''t1'', role = USER\<rparr>"

definition ex_bob :: User where
  "ex_bob = \<lparr>u_id = ''u2'', u_name = ''Bob'', u_email = ''bob@company.com'',
             teamId = Some ''t2'', role = ADMIN\<rparr>"

definition ex_carol :: User where
  "ex_carol = \<lparr>u_id = ''u3'', u_name = ''Carol'', u_email = ''carol@company.com'',
               teamId = None, role = USER\<rparr>"

definition ex_alert_org :: Alert where
  "ex_alert_org =
     \<lparr>a_id = ''a1'', title = ''Maintenance'', message = ''Tonight'', severity = CRITICAL,
      visibilityType = ''organization'', visibilityTarget = None, startTime = None,
      expiryTime = None, reminderEnabled = True, archivedAt = None\<rparr>"

definition ex_alert_window :: Alert where
  "ex_alert_window =
     \<lparr>a_id = ''a2'', title = ''Audit'', message = ''This week'', severity = WARNING,
      visibilityType = ''organization'', visibilityTarget = None, startTime = Some 1000,
      expiryTime = Some 7201000, reminderEnabled = True, archivedAt = None\<rparr>"

definition ex_alert_team :: Alert where
  "ex_alert_team =
     \<lparr>a_id = ''a3'', title = ''Standup'', message = ''Moved'', severity = INFO,
      visibilityType = ''team'', visibilityTarget = Some ''t1'', startTime = None,
      expiryTime = None, reminderEnabled = False, archivedAt = None\<rparr>"

definition ex_alert_user :: Alert where
  "ex_alert_user =
     \<lparr>a_id = ''a4'', title = ''Password'', message = ''Expires soon'', severity = WARNING,
      visibilityType = ''user'', visibilityTarget = Some ''u2'', startTime = None,
      expiryTime = None, reminderEnabled = True, archivedAt = None\<rparr>"

definition ex_alert_other :: Alert where
  "ex_alert_other =
     \<lparr>a_id = ''a5'', title = ''Draft'', message = ''Ignore'', severity = INFO,
      visibilityType = ''department'', visibilityTarget = Some ''t1'', startTime = None,
      expiryTime = None, reminderEnabled = True, archivedAt = None\<rparr>"

definition ex_pref_unread :: UserAlertPreference where
  "ex_pref_unread = \<lparr>isRead = False, snoozedUntil = None, updatedAt = 0\<rparr>"

definition ex_pref_read :: UserAlertPreference where
  "ex_pref_read = \<lparr>isRead = True, snoozedUntil = None, updatedAt = 0\<rparr>"

definition ex_pref_snoozed :: UserAlertPreference where
  "ex_pref_snoozed = \<lparr>isRead = False, snoozedUntil = Some 5000, updatedAt = 0\<rparr>"

definition ex_delivery :: "string \<Rightarrow> string \<Rightarrow> timestamp \<Rightarrow> NotificationDelivery" where
  "ex_delivery alertId userId t =
     \<lparr>d_alertId = alertId, d_userId = userId, channel = ''in_app'', deliveredAt = t,
      status = DELIVERED\<rparr>"

text \<open>
  Alice has the organisation-wide alert \<open>a1\<close> unread, last delivered at \<open>10000\<close>, and has
  snoozed \<open>a2\<close>; Bob has read \<open>a1\<close>; Carol has no preference row at all.
\<close>

definition ex_store :: Store where
  "ex_store =
     \<lparr>users = [ex_alice, ex_bob, ex_carol],
      alerts = [ex_alert_org, ex_alert_window, ex_alert_team, ex_alert_user, ex_alert_other],
      preferences = [(''u1'', ''a1'') \<mapsto> ex_pref_unread, (''u2'', ''a1'') \<mapsto> ex_pref_read,
                     (''u1'', ''a2'') \<mapsto> ex_pref_snoozed],
      deliveries = [ex_delivery ''a1'' ''u1'' 4000, ex_delivery ''a1'' ''u1'' 10000,
                    ex_delivery ''a1'' ''u2'' 10000, ex_delivery ''a2'' ''u1'' 2000]\<rparr>"

section \<open>The state engine\<close>

text \<open>
  Claim C4. The effective state of an (alert, preference) pair at the instant \<open>now\<close> is
  \<open>EXPIRED\<close> whenever the expiry time is set and \<open>now\<close> is after it, whatever the
  preference; otherwise \<open>SNOOZED\<close> whenever the preference has a \<open>snoozedUntil\<close> after \<open>now\<close>;
  otherwise \<open>ACTIVE\<close>. The start time takes no part: an alert before its start time is
  \<open>ACTIVE\<close>.
\<close>

theorem getState_priority:
  "getState now alert preference =
     (if (\<exists>e. expiryTime alert = Some e \<and> now > e) then EXPIRED
      else if (\<exists>p su. preference = Some p \<and> snoozedUntil p = Some su \<and> now < su) then SNOOZED
      else ACTIVE)"
  by (auto simp: getState_def split: option.splits)

theorem getState_priority_witness:
  "getState 7201001 ex_alert_window (Some (ex_pref_snoozed\<lparr>snoozedUntil := Some 9000000\<rparr>)) = EXPIRED
   \<and> getState 2000 ex_alert_window (Some ex_pref_snoozed) = SNOOZED
   \<and> getState 6000 ex_alert_window (Some ex_pref_snoozed) = ACTIVE
   \<and> getState 500 ex_alert_window None = ACTIVE"
  using getState_priority [of 7201001 ex_alert_window
          "Some (ex_pref_snoozed\<lparr>snoozedUntil := Some 9000000\<rparr>)"]
        getState_priority [of 2000 ex_alert_window "Some ex_pref_snoozed"]
        getState_priority [of 6000 ex_alert_window "Some ex_pref_snoozed"]
        getState_priority [of 500 ex_alert_window None]
  by (simp add: ex_alert_window_def ex_pref_snoozed_def)

text \<open>
  Claim C2, as stated, fails at the expiry instant. At \<open>now = expiryTime\<close> the alert
  \<open>ex_alert_window\<close> is \<open>ACTIVE\<close> and \<open>canDeliver\<close> is true, while the half-open window
  \<open>now < expiryTime\<close> of the claim is false there.
\<close>

theorem canDeliver_half_open_counterexample:
  "getState 7201000 ex_alert_window None = ACTIVE
   \<and> AlertStateManager_canDeliver 7201000 ex_alert_window None
   \<and> \<not> ((case startTime ex_alert_window of None \<Rightarrow> True | Some st \<Rightarrow> 7201000 \<ge> st) \<and>
         (case expiryTime ex_alert_window of None \<Rightarrow> True | Some e \<Rightarrow> 7201000 < e))"
  by (simp add: getState_def AlertStateManager_canDeliver_def handler_canDeliver_def
        ActiveAlertState_canDeliver_def ex_alert_window_def)

text \<open>
  Claim C2, amended. For an alert in effective state \<open>ACTIVE\<close>, \<open>canDeliver\<close> is true if and
  only if the start time is absent or \<open>now \<ge> startTime\<close>, and the expiry time is absent or
  \<open>now \<le> expiryTime\<close>: the window is closed at both ends, and at the instant
  \<open>now = expiryTime\<close> the alert is still deliverable.
\<close>

theorem canDeliver_active_window:
  "getState now alert preference = ACTIVE \<Longrightarrow>
   AlertStateManager_canDeliver now alert preference \<longleftrightarrow>
     (case startTime alert of None \<Rightarrow> True | Some st \<Rightarrow> now \<ge> st) \<and>
     (case expiryTime alert of None \<Rightarrow> True | Some e \<Rightarrow> now \<le> e)"
  by (auto simp: AlertStateManager_canDeliver_def handler_canDeliver_def
        ActiveAlertState_canDeliver_def split: option.splits)

theorem canDeliver_active_window_witness:
  "getState 7201000 ex_alert_window None = ACTIVE
   \<and> AlertStateManager_canDeliver 7201000 ex_alert_window None
   \<and> getState 999 ex_alert_window None = ACTIVE
   \<and> \<not> AlertStateManager_canDeliver 999 ex_alert_window None"
proof -
  have a: "getState 7201000 ex_alert_window None = ACTIVE"
    by (simp add: getState_def ex_alert_window_def)
  have b: "getState 999 ex_alert_window None = ACTIVE"
    by (simp add: getState_def ex_alert_window_def)
  show ?thesis
    using a b canDeliver_active_window [OF a] canDeliver_active_window [OF b]
    by (simp add: ex_alert_window_def)
qed

text \<open>
  Claim C3, as stated, fails when the computed instant is the expiry time itself. With a
  reminder interval of 120 minutes, no earlier delivery and \<open>now = 1000\<close>, the next
  reminder of \<open>ex_alert_window\<close> falls at \<open>7201000\<close>, its expiry time; the claim wants
  \<open>null\<close> there, the code returns the instant.
\<close>

theorem getNextReminderTime_at_expiry_counterexample:
  "getState 1000 ex_alert_window None = ACTIVE
   \<and> reminderEnabled ex_alert_window
   \<and> expiryTime ex_alert_window = Some (1000 + 120 * 60 * 1000)
   \<and> AlertStateManager_getNextReminderTime 120 1000 ex_alert_window None None \<noteq> None"
  by (simp add: getState_def AlertStateManager_getNextReminderTime_def
        handler_getNextReminderTime_def ActiveAlertState_getNextReminderTime_def
        ex_alert_window_def)

text \<open>
  Claim C3, amended. For an alert in effective state \<open>ACTIVE\<close>, \<open>getNextReminderTime\<close>
  returns \<open>null\<close> if reminders are disabled; otherwise it computes the last delivery (or
  \<open>now\<close>, when there is none) plus the reminder interval, and returns \<open>null\<close> when that
  instant is strictly after the expiry time, and the instant itself otherwise: also
  when it is equal to the expiry time.
\<close>

theorem getNextReminderTime_active:
  "getState now alert preference = ACTIVE \<Longrightarrow>
   AlertStateManager_getNextReminderTime reminderInterval now alert preference lastDelivery =
     (if \<not> reminderEnabled alert then None
      else if (\<exists>e. expiryTime alert = Some e \<and>
                   (case lastDelivery of Some l \<Rightarrow> l | None \<Rightarrow> now)
                     + reminderInterval * 60 * 1000 > e)
        then None
      else Some ((case lastDelivery of Some l \<Rightarrow> l | None \<Rightarrow> now)
                   + reminderInterval * 60 * 1000))"
  by (auto simp: AlertStateManager_getNextReminderTime_def handler_getNextReminderTime_def
        ActiveAlertState_getNextReminderTime_def Let_def split: option.splits)

theorem getNextReminderTime_active_witness:
  "getState 1000 ex_alert_window None = ACTIVE
   \<and> AlertStateManager_getNextReminderTime 120 1000 ex_alert_window None None = Some 7201000
   \<and> AlertStateManager_getNextReminderTime 120 1000 ex_alert_window None (Some 1001) = None
   \<and> AlertStateManager_getNextReminderTime 120 1000 ex_alert_window None (Some 400) = Some 7200400
   \<and> getState 1000 ex_alert_team None = ACTIVE
   \<and> AlertStateManager_getNextReminderTime 120 1000 ex_alert_team None (Some 400) = None"
proof -
  have a: "getState 1000 ex_alert_window None = ACTIVE"
    by (simp add: getState_def ex_alert_window_def)
  have b: "getState 1000 ex_alert_team None = ACTIVE"
    by (simp add: getState_def ex_alert_team_def)
  show ?thesis
    using a b
      getNextReminderTime_active [OF a, of 120 None]
      getNextReminderTime_active [OF a, of 120 "Some 1001"]
      getNextReminderTime_active [OF a, of 120 "Some 400"]
      getNextReminderTime_active [OF b, of 120 "Some 400"]
    by (simp add: ex_alert_window_def ex_alert_team_def)
qed

section \<open>Effects of one delivery\<close>

text \<open>
  What \<^verbatim>\<open>deliverToUser\<close> writes, table by table: it never touches users or alerts, it
  appends delivery records of its own pair only, and it leaves every preference row
  that exists as it is.
\<close>

lemma deliverThroughChannels_frame:
  "users (snd (deliverThroughChannels now alert user chs s)) = users s
   \<and> alerts (snd (deliverThroughChannels now alert user chs s)) = alerts s
   \<and> preferences (snd (deliverThroughChannels now alert user chs s)) = preferences s"
  by (induction chs arbitrary: s) (auto simp: recordDelivery_def split: option.splits)

lemma preferences_deliverToUser_Some:
  assumes "preferences s k = Some p"
  shows "preferences (deliverToUser chs now s alert user) k = Some p"
proof -
  obtain completed s1 where r: "deliverThroughChannels now alert user chs s = (completed, s1)"
    by (cases "deliverThroughChannels now alert user chs s")
  with deliverThroughChannels_frame [of now alert user chs s]
  have "preferences s1 = preferences s" by simp
  with assms r show ?thesis
    by (auto simp: deliverToUser_def Let_def ensureUserAlertPreference_def split: option.splits)
qed

text \<open>
  A channel whose name the \<^verbatim>\<open>CHECK\<close> on \<^verbatim>\<open>channel\<close> rejects ends the call where it stands
  in the list. The registry of the service begins with \<^verbatim>\<open>'in-app'\<close>, which the schema,
  with its \<^verbatim>\<open>'in_app'\<close>, rejects: with this registry \<^verbatim>\<open>deliverToUser\<close> writes nothing at
  all.
\<close>

lemma deliverToUser_first_channel_rejected:
  assumes "getName ch \<noteq> ''in_app''" "getName ch \<noteq> ''email''" "getName ch \<noteq> ''sms''"
  shows "deliverToUser (ch # chs) now s alert user = s"
  using assms
  by (simp add: deliverToUser_def Let_def recordDelivery_def schemaAccepts_def deliveryRecord_def)

lemma deliverToUser_registry:
  "deliverToUser getEnabledChannels now s alert user = s"
  unfolding getEnabledChannels_def
  by (rule deliverToUser_first_channel_rejected) (simp_all add: InAppChannel_def)

text \<open>
  With a channel the schema accepts, the call records a delivery whether or not the
  recipient has read the alert: \<open>isRead\<close> is not among what \<^verbatim>\<open>deliverToUser\<close> reads.
\<close>

lemma deliverToUser_email_only_example:
  "hasRead ex_store ''u2'' ''a1''
   \<and> deliveries (deliverToUser [EmailChannel] 20000 ex_store ex_alert_org ex_bob)
       = deliveries ex_store
           @ [\<lparr>d_alertId = ''a1'', d_userId = ''u2'', channel = ''email'', deliveredAt = 20000,
               status = DELIVERED\<rparr>]"
  by (simp add: hasRead_def deliverToUser_def Let_def recordDelivery_def schemaAccepts_def
        deliveryRecord_def notificationOf_def EmailChannel_def getUserAlertPreference_def
        uncastPreference_def AlertStateManager_canDeliver_def handler_canDeliver_def
        getState_def ActiveAlertState_canDeliver_def ensureUserAlertPreference_def
        ex_store_def ex_alert_org_def ex_bob_def ex_alice_def ex_carol_def ex_pref_read_def)

section \<open>Effects of one reminder pass\<close>

text \<open>
  \<^verbatim>\<open>processReminders\<close> hands the rows of \<^verbatim>\<open>getActiveAlertsWithReminders\<close> to the state engine
  uncast. \<^verbatim>\<open>shouldCreateReminder\<close> begins with \<^verbatim>\<open>alert.reminderEnabled\<close>, which such a row
  does not have: the loop body returns at once for every candidate, and a pass leaves
  the store as it found it.
\<close>

lemma shouldCreateReminder_uncast:
  "\<not> AlertStateManager_shouldCreateReminder now (uncastAlert row) preference"
  by (simp add: AlertStateManager_shouldCreateReminder_def handler_shouldCreateReminder_def
        ActiveAlertState_shouldCreateReminder_def uncastAlert_def split: AlertState.splits)

lemma remindUser_uncast: "remindUser ri chs now (uncastAlert row) user s = s"
  by (simp add: remindUser_def shouldCreateReminder_uncast split: option.splits)

lemma processAlertReminders_uncast: "processAlertReminders ri chs now (uncastAlert row) s = s"
  unfolding processAlertReminders_def
  by (rule fold_invariant [where Q = "\<lambda>_. True" and P = "\<lambda>t. t = s"])
     (simp_all add: remindUser_uncast)

lemma processReminders_unchanged: "processReminders ri chs now s = s"
  unfolding processReminders_def
  by (rule fold_invariant [where Q = "\<lambda>a. \<exists>row. a = uncastAlert row" and P = "\<lambda>t. t = s"])
     (auto simp: getActiveAlertsWithReminders_def processAlertReminders_uncast)

lemma passes_unchanged: "fold (processReminders ri chs) ticks s = s"
  by (induction ticks) (simp_all add: processReminders_unchanged)

lemma a_id_uncastAlert [simp]: "a_id (uncastAlert row) = a_id row"
  by (simp add: uncastAlert_def)

lemma getEligibleUsers_uncast: "getEligibleUsers s (uncastAlert row) = []"
  by (simp add: getEligibleUsers_def uncastAlert_def)

lemma deliverAlert_found: "deliverAlert chs now s alertId = Inr s' \<Longrightarrow> s' = s"
  by (auto simp: deliverAlert_def getAlert_def getEligibleUsers_uncast split: option.splits)

section \<open>Visibility resolution\<close>

lemma filter_key_at_most_one:
  "distinct (map f xs) \<Longrightarrow> length (filter (\<lambda>x. k = f x) xs) \<le> 1"
proof (induction xs)
  case Nil
  then show ?case by simp
next
  case (Cons x xs)
  show ?case
  proof (cases "k = f x")
    case True
    with Cons.prems have "\<forall>y\<in>set xs. k \<noteq> f y" by force
    then have "filter (\<lambda>x. k = f x) xs = []" by (simp add: filter_empty_conv)
    with True show ?thesis by simp
  next
    case False
    with Cons show ?thesis by simp
  qed
qed

text \<open>
  Claim C5. The eligible recipients of an alert are all users when its visibility is
  \<open>organization\<close>; exactly the users whose team is the visibility target when it is
  \<open>team\<close>; exactly the users whose id is the visibility target when it is \<open>user\<close>, at most
  one where user ids are unique; and none, returned as an empty list and not as an
  error, for any other visibility value.
\<close>

theorem getEligibleUsers_by_visibility:
  "(visibilityType alert = ''organization'' \<longrightarrow> getEligibleUsers s alert = users s)
   \<and> (visibilityType alert = ''team'' \<longrightarrow>
        getEligibleUsers s alert =
          filter (\<lambda>u. \<exists>t. visibilityTarget alert = Some t \<and> teamId u = Some t) (users s))
   \<and> (visibilityType alert = ''user'' \<longrightarrow>
        getEligibleUsers s alert =
          filter (\<lambda>u. visibilityTarget alert = Some (u_id u)) (users s)
        \<and> (distinct (map u_id (users s)) \<longrightarrow> length (getEligibleUsers s alert) \<le> 1))
   \<and> (visibilityType alert \<noteq> ''organization'' \<and> visibilityType alert \<noteq> ''team''
        \<and> visibilityType alert \<noteq> ''user'' \<longrightarrow> getEligibleUsers s alert = [])"
proof -
  have role: "role u = ADMIN \<or> role u = USER" for u :: User
    by (cases "role u") simp_all
  have team: "sql_eq (teamId u) (visibilityTarget alert)
                \<longleftrightarrow> (\<exists>t. visibilityTarget alert = Some t \<and> teamId u = Some t)" for u :: User
    by (auto simp: sql_eq_def split: option.splits)
  have usr: "sql_eq (Some (u_id u)) (visibilityTarget alert)
                \<longleftrightarrow> visibilityTarget alert = Some (u_id u)" for u :: User
    by (auto simp: sql_eq_def split: option.splits)
  have one: "length (filter (\<lambda>u. visibilityTarget alert = Some (u_id u)) (users s)) \<le> 1"
    if "distinct (map u_id (users s))"
  proof (cases "visibilityTarget alert")
    case None
    then show ?thesis by simp
  next
    case (Some k)
    with filter_key_at_most_one [OF that, of k] show ?thesis by simp
  qed
  show ?thesis
    using one by (simp add: getEligibleUsers_def role team usr)
qed

theorem getEligibleUsers_by_visibility_witness:
  "getEligibleUsers ex_store ex_alert_org = [ex_alice, ex_bob, ex_carol]
   \<and> getEligibleUsers ex_store ex_alert_team = [ex_alice]
   \<and> getEligibleUsers ex_store ex_alert_user = [ex_bob]
   \<and> getEligibleUsers ex_store ex_alert_other = []"
  using getEligibleUsers_by_visibility [of ex_alert_org ex_store]
        getEligibleUsers_by_visibility [of ex_alert_team ex_store]
        getEligibleUsers_by_visibility [of ex_alert_user ex_store]
        getEligibleUsers_by_visibility [of ex_alert_other ex_store]
  by (simp add: ex_store_def ex_alert_org_def ex_alert_team_def ex_alert_user_def
        ex_alert_other_def ex_alice_def ex_bob_def ex_carol_def)

section \<open>Delivery to one recipient\<close>

text \<open>
  Claim C1. For every alert and every recipient whose stored preference for the alert
  has \<open>isRead = true\<close>, \<^verbatim>\<open>deliverToUser\<close>, with the channels the service is constructed with,
  creates no delivery record and performs no other store write; a second call in
  immediate succession creates none either. This holds of the code, though not through
  \<open>isRead\<close>: the call returns early where \<open>canDeliver\<close> is false, and otherwise the first
  \<^verbatim>\<open>INSERT\<close>, for the channel \<^verbatim>\<open>'in-app'\<close>, is rejected by the schema and ends the call
  (\<open>deliverToUser_registry\<close>).
\<close>

theorem deliverToUser_read_no_write:
  assumes "hasRead s (u_id user) (a_id alert)"
  shows "deliverToUser getEnabledChannels now s alert user = s
       \<and> deliveries (deliverToUser getEnabledChannels now s alert user) = deliveries s
       \<and> deliveries
           (deliverToUser getEnabledChannels now
              (deliverToUser getEnabledChannels now s alert user) alert user)
           = deliveries (deliverToUser getEnabledChannels now s alert user)"
  by (simp add: deliverToUser_registry)

theorem deliverToUser_read_no_write_witness:
  "hasRead ex_store (u_id ex_bob) (a_id ex_alert_org)
   \<and> AlertStateManager_canDeliver 20000 ex_alert_org
        (getUserAlertPreference ex_store (u_id ex_bob) (a_id ex_alert_org))
   \<and> deliverToUser getEnabledChannels 20000 ex_store ex_alert_org ex_bob = ex_store
   \<and> deliveriesFor
        (deliverToUser getEnabledChannels 20000
           (deliverToUser getEnabledChannels 20000 ex_store ex_alert_org ex_bob)
           ex_alert_org ex_bob) ''a1'' ''u2''
       = [ex_delivery ''a1'' ''u2'' 10000]"
proof -
  have rd: "hasRead ex_store (u_id ex_bob) (a_id ex_alert_org)"
    by (simp add: hasRead_def ex_store_def ex_bob_def ex_alert_org_def ex_pref_read_def)
  have can: "AlertStateManager_canDeliver 20000 ex_alert_org
        (getUserAlertPreference ex_store (u_id ex_bob) (a_id ex_alert_org))"
    by (simp add: AlertStateManager_canDeliver_def handler_canDeliver_def getState_def
          ActiveAlertState_canDeliver_def getUserAlertPreference_def uncastPreference_def
          ex_store_def ex_bob_def ex_alert_org_def)
  have old: "deliveriesFor ex_store ''a1'' ''u2'' = [ex_delivery ''a1'' ''u2'' 10000]"
    by (simp add: deliveriesFor_def ex_store_def ex_delivery_def)
  show ?thesis
    using rd can old deliverToUser_read_no_write [OF rd, of 20000] by simp
qed

section \<open>Read and snooze\<close>

text \<open>
  Claim C10. After \<^verbatim>\<open>markAlertAsRead(userId, alertId)\<close> the preference row of the pair has
  \<open>isRead = true\<close> and \<open>snoozedUntil = null\<close>: the row is replaced as a whole, and a snooze
  the pair had before is gone.
\<close>

theorem markAlertAsRead_clears_snooze:
  "preferences (markAlertAsRead now s userId alertId) (userId, alertId)
     = Some \<lparr>isRead = True, snoozedUntil = None, updatedAt = now\<rparr>"
  by (simp add: markAlertAsRead_def)

theorem markAlertAsRead_clears_snooze_witness:
  "preferences ex_store (''u1'', ''a2'')
     = Some \<lparr>isRead = False, snoozedUntil = Some 5000, updatedAt = 0\<rparr>
   \<and> preferences (markAlertAsRead 3000 ex_store ''u1'' ''a2'') (''u1'', ''a2'')
     = Some \<lparr>isRead = True, snoozedUntil = None, updatedAt = 3000\<rparr>"
  using markAlertAsRead_clears_snooze [of 3000 ex_store "''u1''" "''a2''"]
  by (simp add: ex_store_def ex_pref_snoozed_def)

lemma hasRead_ensureUserAlertPreference:
  "hasRead s uid aid \<Longrightarrow> hasRead (ensureUserAlertPreference now s u a) uid aid"
  by (auto simp: hasRead_def ensureUserAlertPreference_def split: option.splits)

lemma hasRead_deliverToUser:
  "hasRead s uid aid \<Longrightarrow> hasRead (deliverToUser chs now s alert user) uid aid"
  by (auto simp: hasRead_def preferences_deliverToUser_Some split: option.splits)

lemma hasRead_markAlertAsRead:
  "hasRead s uid aid \<Longrightarrow> hasRead (markAlertAsRead now s u a) uid aid"
  by (simp add: hasRead_def markAlertAsRead_def)

lemma hasRead_snoozeAlert:
  "hasRead s uid aid \<Longrightarrow> hasRead (snoozeAlert now s u a h) uid aid"
  by (auto simp: hasRead_def snoozeAlert_def Let_def split: option.splits)

lemma hasRead_perform:
  "hasRead s uid aid \<Longrightarrow> hasRead (perform ri chs e s) uid aid"
  by (auto simp: perform_def processReminders_unchanged hasRead_markAlertAsRead
        hasRead_snoozeAlert split: operation.splits sum.splits dest: deliverAlert_found)

text \<open>
  Claim C8. \<open>isRead\<close> is monotonic: once the preference row of a (user, alert) pair has
  \<open>isRead = true\<close>, it has it after \<^verbatim>\<open>ensureUserAlertPreference\<close>, after
  \<^verbatim>\<open>deliverToUser\<close>, after \<^verbatim>\<open>markAlertAsRead\<close> and after \<^verbatim>\<open>snoozeAlert\<close>, whatever pair these
  are called for, and so after every sequence of operations of the service.
  \<^verbatim>\<open>snoozeAlert\<close> replaces \<open>snoozedUntil\<close> by the new instant and keeps the \<open>isRead\<close> value the
  row had (\<open>false\<close> where the pair had no row).
\<close>

theorem isRead_monotonic:
  "(hasRead s uid aid \<longrightarrow>
      hasRead (ensureUserAlertPreference now s u a) uid aid
      \<and> hasRead (deliverToUser chs now s alert user) uid aid
      \<and> hasRead (markAlertAsRead now s u a) uid aid
      \<and> hasRead (snoozeAlert now s u a h) uid aid
      \<and> hasRead (fold (perform ri chs) ops s) uid aid)
   \<and> preferences (snoozeAlert now s u a h) (u, a)
       = Some \<lparr>isRead = hasRead s u a, snoozedUntil = Some (now + h * 60 * 60 * 1000),
               updatedAt = now\<rparr>"
proof -
  have run: "hasRead (fold (perform ri chs) ops s) uid aid" if "hasRead s uid aid"
    by (rule fold_invariant [where Q = "\<lambda>_. True"]) (simp_all add: that hasRead_perform)
  have snooze: "preferences (snoozeAlert now s u a h) (u, a)
       = Some \<lparr>isRead = hasRead s u a, snoozedUntil = Some (now + h * 60 * 60 * 1000),
               updatedAt = now\<rparr>"
    by (simp add: snoozeAlert_def hasRead_def Let_def)
  show ?thesis
    using run snooze
    by (simp add: hasRead_ensureUserAlertPreference hasRead_deliverToUser
          hasRead_markAlertAsRead hasRead_snoozeAlert)
qed

theorem isRead_monotonic_witness:
  "hasRead ex_store ''u2'' ''a1''
   \<and> hasRead (snoozeAlert 30000 ex_store ''u2'' ''a1'' 24) ''u2'' ''a1''
   \<and> preferences (snoozeAlert 30000 ex_store ''u2'' ''a1'' 24) (''u2'', ''a1'')
       = Some \<lparr>isRead = True, snoozedUntil = Some 86430000, updatedAt = 30000\<rparr>
   \<and> hasRead (deliverToUser getEnabledChannels 30000 ex_store ex_alert_org ex_bob) ''u2'' ''a1''
   \<and> hasRead (fold (perform 120 getEnabledChannels)
                 [(30000, SnoozeAlert ''u2'' ''a1'' 24), (40000, DeliverAlert ''a1''),
                  (90000000, ProcessReminders), (90000001, SnoozeAlert ''u2'' ''a1'' 1)]
                 ex_store) ''u2'' ''a1''"
proof -
  have rd: "hasRead ex_store ''u2'' ''a1''"
    by (simp add: hasRead_def ex_store_def ex_pref_read_def)
  show ?thesis
    using rd
      isRead_monotonic [of ex_store "''u2''" "''a1''" 30000 "''u2''" "''a1''"
        getEnabledChannels ex_alert_org ex_bob 24 120
        "[(30000, SnoozeAlert ''u2'' ''a1'' 24), (40000, DeliverAlert ''a1''),
          (90000000, ProcessReminders), (90000001, SnoozeAlert ''u2'' ''a1'' 1)]"]
    by simp
qed

section \<open>Reminder passes\<close>

text \<open>
  Claim C7. Once \<^verbatim>\<open>markAlertAsRead(userId, alertId)\<close> has completed, no later
  \<^verbatim>\<open>processReminders\<close> pass creates a delivery record for the pair: after any number of
  passes, at any instants, the delivery records of the pair are the ones it had when
  the alert was marked read, and the row is still read.
\<close>

theorem read_suppresses_reminders:
  "deliveriesFor
     (fold (processReminders ri chs) ticks (markAlertAsRead t0 s userId alertId)) alertId userId
     = deliveriesFor s alertId userId
   \<and> hasRead (fold (processReminders ri chs) ticks (markAlertAsRead t0 s userId alertId))
       userId alertId"
  by (simp add: passes_unchanged deliveriesFor_def hasRead_def markAlertAsRead_def)

theorem read_suppresses_reminders_witness:
  "deliveriesFor
     (fold (processReminders 120 getEnabledChannels) [3610000, 7270000, 14470000]
        (markAlertAsRead 20000 ex_store ''u1'' ''a1'')) ''a1'' ''u1''
     = [ex_delivery ''a1'' ''u1'' 4000, ex_delivery ''a1'' ''u1'' 10000]"
  using read_suppresses_reminders [of 120 getEnabledChannels "[3610000, 7270000, 14470000]"
          20000 ex_store "''u1''" "''a1''"]
  by (simp add: deliveriesFor_def ex_store_def ex_delivery_def)

text \<open>
  Claim C9. A recipient with no preference row for the alert gets no reminder: the loop
  body of a pass returns at once when the row is absent, before \<open>shouldCreateReminder\<close> is
  asked. Whatever the eligibility of the user, after any number of passes the pair has
  the delivery records it had, and still no preference row.
\<close>

theorem no_preference_no_reminder:
  "getUserAlertPreference s (u_id user) (a_id alert) = None \<Longrightarrow>
   remindUser ri chs now alert user s = s
   \<and> deliveriesFor (fold (processReminders ri chs) ticks s) (a_id alert) (u_id user)
       = deliveriesFor s (a_id alert) (u_id user)
   \<and> getUserAlertPreference (fold (processReminders ri chs) ticks s) (u_id user) (a_id alert)
       = None"
  by (simp add: remindUser_def passes_unchanged)

theorem no_preference_no_reminder_witness:
  "getUserAlertPreference ex_store (u_id ex_carol) (a_id ex_alert_org) = None
   \<and> ex_carol \<in> set (getEligibleUsers ex_store ex_alert_org)
   \<and> ex_carol \<in> set (getUsersNeedingReminders 7270000 ex_store ''a1'')
   \<and> remindUser 120 getEnabledChannels 7270000 ex_alert_org ex_carol ex_store = ex_store
   \<and> deliveriesFor (fold (processReminders 120 getEnabledChannels) [7270000, 14470000] ex_store)
        ''a1'' ''u3'' = []"
proof -
  have none: "getUserAlertPreference ex_store (u_id ex_carol) (a_id ex_alert_org) = None"
    by (simp add: getUserAlertPreference_def ex_store_def ex_carol_def ex_alert_org_def)
  have el: "ex_carol \<in> set (getEligibleUsers ex_store ex_alert_org)"
    by (simp add: getEligibleUsers_def ex_store_def ex_alert_org_def ex_carol_def)
  have row: "needsReminderRow 7270000 ''a1'' ex_carol ex_alert_org
               (preferences ex_store (u_id ex_carol, a_id ex_alert_org))"
    by (simp add: needsReminderRow_def ex_store_def ex_alert_org_def ex_carol_def)
  moreover have "ex_alert_org \<in> set (alerts ex_store)" by (simp add: ex_store_def)
  ultimately have "\<exists>a\<in>set (alerts ex_store). needsReminderRow 7270000 ''a1'' ex_carol a
               (preferences ex_store (u_id ex_carol, a_id a))"
    by (rule bexI)
  moreover have "ex_carol \<in> set (users ex_store)" by (simp add: ex_store_def)
  ultimately have cand: "ex_carol \<in> set (getUsersNeedingReminders 7270000 ex_store ''a1'')"
    by (simp add: getUsersNeedingReminders_def list_ex_iff)
  have ids: "a_id ex_alert_org = ''a1''" "u_id ex_carol = ''u3''"
    by (simp_all add: ex_alert_org_def ex_carol_def)
  have old: "deliveriesFor ex_store ''a1'' ''u3'' = []"
    by (simp add: deliveriesFor_def ex_store_def ex_delivery_def)
  show ?thesis
    using none el cand old
      no_preference_no_reminder [OF none, of 120 getEnabledChannels 7270000
        "[7270000, 14470000]"]
    by (simp add: ids)
qed

text \<open>
  Claim C6 is not met by the code. Alice is a recipient of the organisation-wide,
  reminder-enabled alert \<open>a1\<close>, which has no expiry time; her preference row is unread
  and not snoozed, her most recent delivery is at \<open>T = 10000\<close>, and she is among the
  candidates of the pass. The pass at \<open>T\<close> + 121 minutes creates no delivery record for
  her, where the claim wants one per enabled channel: no pass creates any
  (\<open>processReminders_unchanged\<close>).
\<close>

theorem reminder_due_not_sent:
  "ex_alert_org \<in> set (alerts ex_store) \<and> reminderEnabled ex_alert_org
   \<and> expiryTime ex_alert_org = None
   \<and> ex_alice \<in> set (getEligibleUsers ex_store ex_alert_org)
   \<and> preferences ex_store (''u1'', ''a1'')
        = Some \<lparr>isRead = False, snoozedUntil = None, updatedAt = 0\<rparr>
   \<and> getLastDeliveryTime ex_store ''a1'' ''u1'' = Some 10000
   \<and> ex_alice \<in> set (getUsersNeedingReminders (10000 + 121 * 60 * 1000) ex_store ''a1'')
   \<and> deliveriesFor (processReminders 120 getEnabledChannels (10000 + 121 * 60 * 1000) ex_store)
        ''a1'' ''u1''
       = deliveriesFor ex_store ''a1'' ''u1''"
proof -
  have al: "ex_alert_org \<in> set (alerts ex_store)" by (simp add: ex_store_def)
  have en: "reminderEnabled ex_alert_org" "expiryTime ex_alert_org = None"
    by (simp_all add: ex_alert_org_def)
  have el: "ex_alice \<in> set (getEligibleUsers ex_store ex_alert_org)"
    by (simp add: getEligibleUsers_def ex_store_def ex_alert_org_def ex_alice_def)
  have pref: "preferences ex_store (''u1'', ''a1'')
        = Some \<lparr>isRead = False, snoozedUntil = None, updatedAt = 0\<rparr>"
    by (simp add: ex_store_def ex_pref_unread_def)
  have last: "getLastDeliveryTime ex_store ''a1'' ''u1'' = Some 10000"
    by (simp add: getLastDeliveryTime_def ex_store_def ex_delivery_def)
  have row: "needsReminderRow (10000 + 121 * 60 * 1000) ''a1'' ex_alice ex_alert_org
               (preferences ex_store (u_id ex_alice, a_id ex_alert_org))"
    by (simp add: needsReminderRow_def ex_store_def ex_alert_org_def ex_alice_def
          ex_pref_unread_def)
  from row al
  have "\<exists>a\<in>set (alerts ex_store). needsReminderRow (10000 + 121 * 60 * 1000) ''a1'' ex_alice a
               (preferences ex_store (u_id ex_alice, a_id a))"
    by (rule bexI)
  moreover have "ex_alice \<in> set (users ex_store)" by (simp add: ex_store_def)
  ultimately
  have cand: "ex_alice \<in> set (getUsersNeedingReminders (10000 + 121 * 60 * 1000) ex_store ''a1'')"
    by (simp add: getUsersNeedingReminders_def list_ex_iff)
  show ?thesis
    using al en el pref last cand by (simp add: processReminders_unchanged)
qed

end
